theory Spec2Isabelle
  imports Complex_Main
begin

section \<open>Numbers and errors\<close>

text \<open>
  Python floats are modelled as the reals they denote: rounding error is not modelled,
  and a series holds finite values or missing ones (\<open>None\<close>, pandas' NaN). The
  one place of the fusion engine where a float division can have a zero divisor keeps
  the IEEE outcome in the type \<open>xfloat\<close>.
\<close>

datatype error = IndexError | TypeError | ZeroDivisionError | ValueError

datatype xfloat = Fin real | PosInf | NegInf | NaN

definition fdiv :: "real \<Rightarrow> real \<Rightarrow> xfloat" where
  "fdiv a b =
     (if b \<noteq> 0 then Fin (a / b)
      else if a > 0 then PosInf
      else if a < 0 then NegInf
      else NaN)"

fun fsub :: "xfloat \<Rightarrow> real \<Rightarrow> xfloat" where
  "fsub (Fin r) c = Fin (r - c)"
| "fsub PosInf c = PosInf"
| "fsub NegInf c = NegInf"
| "fsub NaN c = NaN"

fun fgt :: "xfloat \<Rightarrow> real \<Rightarrow> bool" where
  "fgt (Fin r) c = (r > c)"
| "fgt PosInf c = True"
| "fgt NegInf c = False"
| "fgt NaN c = False"

fun flt :: "xfloat \<Rightarrow> real \<Rightarrow> bool" where
  "flt (Fin r) c = (r < c)"
| "flt PosInf c = False"
| "flt NegInf c = True"
| "flt NaN c = False"

text \<open>Python list indexing: a negative index counts from the end.\<close>

definition py_index :: "'a list \<Rightarrow> int \<Rightarrow> error + 'a" where
  "py_index xs i =
     (if 0 \<le> i \<and> i < int (length xs) then Inr (xs ! nat i)
      else if i < 0 \<and> - int (length xs) \<le> i then Inr (xs ! nat (int (length xs) + i))
      else Inl IndexError)"

text \<open>\<open>round(x, n)\<close>: to \<open>n\<close> decimals, an exact tie going to the even neighbour.\<close>

definition round_half_even :: "real \<Rightarrow> int" where
  "round_half_even x =
     (let f = \<lfloor>x\<rfloor>; r = x - of_int f
      in if r < 1 / 2 then f
         else if r > 1 / 2 then f + 1
         else if even f then f else f + 1)"

definition py_round :: "real \<Rightarrow> nat \<Rightarrow> real" where
  "py_round x n = of_int (round_half_even (x * 10 ^ n)) / 10 ^ n"

text \<open>The substring test \<open>needle in haystack\<close>.\<close>

fun starts_with :: "string \<Rightarrow> string \<Rightarrow> bool" where
  "starts_with [] ys = True"
| "starts_with (x # xs) [] = False"
| "starts_with (x # xs) (y # ys) = (x = y \<and> starts_with xs ys)"

fun str_in :: "string \<Rightarrow> string \<Rightarrow> bool" where
  "str_in needle [] = (needle = [])"
| "str_in needle (y # ys) = (starts_with needle (y # ys) \<or> str_in needle ys)"

section \<open>Signal fusion: \<open>calculate_trading_signal\<close> (analyzers/recommendation.py)\<close>

text \<open>
  The \<open>analysis\<close> dictionary and the dictionaries nested in it are records of
  optional entries: \<open>None\<close> is a key that is absent. A nested dictionary is falsy in
  Python exactly when it has no key at all, so each record also carries one key that
  the engine never reads (\<open>n_states\<close>, \<open>model_type\<close>, \<open>adf_pvalue\<close>,
  \<open>dominant_frequency\<close>), standing for the rest of the dictionary.
\<close>

record signal_processing_dict =
  hurst_exponent :: "real option"
  dominant_frequency :: "real option"

record regime_dict =
  current_regime :: "int option"
  regime_descriptions :: "(int \<rightharpoonup> string) option"
  regime_probabilities :: "real list option"
  n_states :: "int option"

record volatility_dict =
  annualized_volatility :: "real option"
  model_type :: "string option"

record metrics_dict =
  sharpe_ratio :: "real option"

record cointegration_dict =
  is_stationary :: "bool option"
  adf_pvalue :: "real option"

record analysis =
  signal_processing :: "signal_processing_dict option"
  regime :: "regime_dict option"
  volatility :: "volatility_dict option"
  price_change_pct :: "real option"
  metrics :: "metrics_dict option"
  cointegration :: "cointegration_dict option"

definition regime_truthy :: "regime_dict \<Rightarrow> bool" where
  "regime_truthy r =
     (current_regime r \<noteq> None \<or> regime_descriptions r \<noteq> None
      \<or> regime_probabilities r \<noteq> None \<or> n_states r \<noteq> None)"

definition volatility_truthy :: "volatility_dict \<Rightarrow> bool" where
  "volatility_truthy v = (annualized_volatility v \<noteq> None \<or> model_type v \<noteq> None)"

definition cointegration_truthy :: "cointegration_dict \<Rightarrow> bool" where
  "cointegration_truthy c = (is_stationary c \<noteq> None \<or> adf_pvalue c \<noteq> None)"

datatype category = BUY | SELL | HOLD

text \<open>
  The reasoning string: a fixed text, or the parts joined by \<open>" | "\<close>. A part built
  by an f-string keeps the number that the f-string formats.
\<close>

datatype reasoning_part =
    MeanReverting real
  | Trending real
  | RegimeDescription string
  | HighVolatility real
  | LowVolatility real
  | StrongSharpe real
  | WeakSharpe real

datatype reasoning_text = Text string | Joined "reasoning_part list"

record trading_recommendation =
  recommendation :: category
  confidence :: real
  signal_strength :: real
  reasoning :: reasoning_text

type_synonym gathered = "real list \<times> real list"

text \<open>\<open>analysis.get('signal_processing', {}).get('hurst_exponent')\<close>\<close>

definition get_hurst :: "analysis \<Rightarrow> real option" where
  "get_hurst a = (case signal_processing a of None \<Rightarrow> None | Some sp \<Rightarrow> hurst_exponent sp)"

text \<open>\<open>price_series.iloc[-1] / price_series.iloc[-20] - 1\<close>\<close>

definition recent_return :: "real list \<Rightarrow> error + xfloat" where
  "recent_return price_series =
     (case py_index price_series (-1) of
        Inl e \<Rightarrow> Inl e
      | Inr last_price \<Rightarrow>
          (case py_index price_series (-20) of
             Inl e \<Rightarrow> Inl e
           | Inr old_price \<Rightarrow> Inr (fsub (fdiv last_price old_price) 1)))"

text \<open>1. Hurst exponent signal, weight 0.30.\<close>

definition hurst_signal :: "analysis \<Rightarrow> real list \<Rightarrow> gathered \<Rightarrow> error + gathered" where
  "hurst_signal a price_series g =
     (case get_hurst a of
        None \<Rightarrow> Inr g
      | Some hurst \<Rightarrow>
          (if hurst < 45 / 100 then
             (case recent_return price_series of
                Inl e \<Rightarrow> Inl e
              | Inr rr \<Rightarrow>
                  Inr (fst g @ [if fgt rr (5 / 100) then -1
                                else if flt rr (- (5 / 100)) then 1 else 0],
                       snd g @ [30 / 100]))
           else if hurst > 55 / 100 then
             (case recent_return price_series of
                Inl e \<Rightarrow> Inl e
              | Inr momentum \<Rightarrow>
                  Inr (fst g @ [if fgt momentum 0 then 1 else -1], snd g @ [30 / 100]))
           else Inr (fst g @ [0], snd g @ [30 / 100])))"

text \<open>2. Regime signal, weight 0.25.\<close>

definition regime_lookup :: "regime_dict \<Rightarrow> error + (string \<times> real)" where
  "regime_lookup r =
     (let regime_desc =
            (case regime_descriptions r of
               None \<Rightarrow> []
             | Some descs \<Rightarrow>
                 (case current_regime r of
                    None \<Rightarrow> []
                  | Some c \<Rightarrow> (case descs c of None \<Rightarrow> [] | Some s \<Rightarrow> s)));
          probs = (case regime_probabilities r of None \<Rightarrow> [0, 0, 0] | Some ps \<Rightarrow> ps)
      in case current_regime r of
           None \<Rightarrow> Inl TypeError
         | Some c \<Rightarrow>
             (case py_index probs c of
                Inl e \<Rightarrow> Inl e
              | Inr regime_prob \<Rightarrow> Inr (regime_desc, regime_prob)))"

definition regime_signal :: "analysis \<Rightarrow> gathered \<Rightarrow> error + gathered" where
  "regime_signal a g =
     (case regime a of
        None \<Rightarrow> Inr g
      | Some r \<Rightarrow>
          (if regime_truthy r then
             (case regime_lookup r of
                Inl e \<Rightarrow> Inl e
              | Inr (regime_desc, regime_prob) \<Rightarrow>
                  Inr (fst g @ [if str_in ''Bull'' regime_desc \<and> regime_prob > 6 / 10 then 1
                                else if str_in ''Bear'' regime_desc \<and> regime_prob > 6 / 10 then -1
                                else 0],
                       snd g @ [25 / 100]))
           else Inr g))"

text \<open>3. Volatility signal, weight 0.15.\<close>

definition volatility_signal :: "analysis \<Rightarrow> gathered \<Rightarrow> gathered" where
  "volatility_signal a g =
     (case volatility a of
        None \<Rightarrow> g
      | Some v \<Rightarrow>
          (if volatility_truthy v then
             (let current_vol = (case annualized_volatility v of None \<Rightarrow> 0 | Some x \<Rightarrow> x)
              in (fst g @ [if current_vol > 40 / 100 then - (1 / 2)
                           else if current_vol < 15 / 100 then 1 / 2 else 0],
                  snd g @ [15 / 100]))
           else g))"

text \<open>4. Momentum signal, weight 0.20; both reads have the default 0.\<close>

definition get_price_change :: "analysis \<Rightarrow> real" where
  "get_price_change a = (case price_change_pct a of None \<Rightarrow> 0 | Some x \<Rightarrow> x)"

definition get_sharpe :: "analysis \<Rightarrow> real" where
  "get_sharpe a =
     (case metrics a of
        None \<Rightarrow> 0
      | Some m \<Rightarrow> (case sharpe_ratio m of None \<Rightarrow> 0 | Some x \<Rightarrow> x))"

definition momentum_signal :: "analysis \<Rightarrow> gathered \<Rightarrow> gathered" where
  "momentum_signal a g =
     (let price_change = get_price_change a; sharpe = get_sharpe a
      in (fst g @ [if sharpe > 15 / 10 then (if price_change > 0 then 1 else 1 / 2)
                   else if sharpe < 5 / 10 then (if price_change < 0 then -1 else - (1 / 2))
                   else 0],
          snd g @ [20 / 100]))"

text \<open>5. Statistical signal, weight 0.10.\<close>

definition statistical_signal :: "analysis \<Rightarrow> gathered \<Rightarrow> gathered" where
  "statistical_signal a g =
     (case cointegration a of
        None \<Rightarrow> g
      | Some c \<Rightarrow>
          (if cointegration_truthy c then
             (let price_change = get_price_change a;
                  stationary = (case is_stationary c of None \<Rightarrow> False | Some b \<Rightarrow> b)
              in (fst g @ [if \<not> stationary then
                             (if price_change > 2 then 1
                              else if price_change < -2 then -1 else 0)
                           else
                             (if price_change > 3 then -1
                              else if price_change < -3 then 1 else 0)],
                  snd g @ [10 / 100]))
           else g))"

text \<open>The five steps in the order of the source, from the two empty lists.\<close>

definition gather_signals :: "analysis \<Rightarrow> real list \<Rightarrow> error + gathered" where
  "gather_signals a price_series =
     (case hurst_signal a price_series ([], []) of
        Inl e \<Rightarrow> Inl e
      | Inr g1 \<Rightarrow>
          (case regime_signal a g1 of
             Inl e \<Rightarrow> Inl e
           | Inr g2 \<Rightarrow> Inr (statistical_signal a (momentum_signal a (volatility_signal a g2)))))"

text \<open>\<open>weights_array / weights_array.sum()\<close> and \<open>np.average(signals, weights=...)\<close>\<close>

definition normalize_weights :: "real list \<Rightarrow> real list" where
  "normalize_weights ws = map (\<lambda>w. w / sum_list ws) ws"

definition np_average :: "real list \<Rightarrow> real list \<Rightarrow> error + real" where
  "np_average xs ws =
     (if length xs \<noteq> length ws then Inl TypeError
      else if sum_list ws = 0 then Inl ZeroDivisionError
      else Inr (sum_list (map2 (*) xs ws) / sum_list ws))"

definition reasoning_parts :: "analysis \<Rightarrow> reasoning_part list" where
  "reasoning_parts a =
     (case get_hurst a of
        None \<Rightarrow> []
      | Some hurst \<Rightarrow>
          (if hurst < 45 / 100 then [MeanReverting hurst]
           else if hurst > 55 / 100 then [Trending hurst] else []))
     @ (case regime a of
          None \<Rightarrow> []
        | Some r \<Rightarrow>
            (if regime_truthy r then
               [RegimeDescription
                  (case regime_descriptions r of
                     None \<Rightarrow> []
                   | Some descs \<Rightarrow>
                       (case descs (case current_regime r of None \<Rightarrow> 0 | Some c \<Rightarrow> c) of
                          None \<Rightarrow> []
                        | Some s \<Rightarrow> s))]
             else []))
     @ (case volatility a of
          None \<Rightarrow> []
        | Some v \<Rightarrow>
            (if volatility_truthy v then
               (let vol_pct = (case annualized_volatility v of None \<Rightarrow> 0 | Some x \<Rightarrow> x) * 100
                in if vol_pct > 40 then [HighVolatility vol_pct]
                   else if vol_pct < 15 then [LowVolatility vol_pct] else [])
             else []))
     @ (let sharpe = get_sharpe a
        in if sharpe > 15 / 10 then [StrongSharpe sharpe]
           else if sharpe < 5 / 10 then [WeakSharpe sharpe] else [])"

text \<open>The decision on the gathered signals and weights.\<close>

definition decide :: "analysis \<Rightarrow> gathered \<Rightarrow> error + trading_recommendation" where
  "decide a g =
     (if fst g = [] then
        Inr \<lparr>recommendation = HOLD, confidence = 0, signal_strength = 0,
             reasoning = Text ''Insufficient data for recommendation''\<rparr>
      else
        (case np_average (fst g) (normalize_weights (snd g)) of
           Inl e \<Rightarrow> Inl e
         | Inr weighted_signal \<Rightarrow>
             (let (rec, conf) =
                    (if weighted_signal > 3 / 10 then
                       (BUY, min (\<bar>weighted_signal\<bar> * 100) 100)
                     else if weighted_signal < - (3 / 10) then
                       (SELL, min (\<bar>weighted_signal\<bar> * 100) 100)
                     else (HOLD, 100 - \<bar>weighted_signal\<bar> * 100));
                  parts = reasoning_parts a
              in Inr \<lparr>recommendation = rec, confidence = py_round conf 1,
                      signal_strength = py_round weighted_signal 3,
                      reasoning = (if parts \<noteq> [] then Joined parts
                                   else Text ''Based on technical analysis'')\<rparr>)))"

definition calculate_trading_signal :: "analysis \<Rightarrow> real list \<Rightarrow> error + trading_recommendation" where
  "calculate_trading_signal a price_series =
     (case gather_signals a price_series of
        Inl e \<Rightarrow> Inl e
      | Inr g \<Rightarrow> decide a g)"

text \<open>The analysis dictionary \<open>{}\<close>.\<close>

definition empty_analysis :: analysis where
  "empty_analysis =
     \<lparr>signal_processing = None, regime = None, volatility = None,
      price_change_pct = None, metrics = None, cointegration = None\<rparr>"

section \<open>Fractional differentiation (analyzers/signal_processing.py)\<close>

text \<open>
  A series is the list of its values in index order, a missing value (NaN) being
  \<open>None\<close>; a series after \<open>dropna()\<close> is the list of the positions that hold a
  value, each with its value.
\<close>

type_synonym series = "real option list"

definition dropna :: "series \<Rightarrow> (nat \<times> real) list" where
  "dropna xs =
     concat (map (\<lambda>(i, x). case x of None \<Rightarrow> [] | Some v \<Rightarrow> [(i, v)]) (enumerate 0 xs))"

text \<open>
  The \<open>while\<close> loop that builds the weights. It does not end for every input
  (\<open>d = -1\<close> keeps every weight at 1), so it is a partial function: \<open>None\<close> is a loop
  that runs forever.
\<close>

partial_function (option) weights_loop :: "real \<Rightarrow> real \<Rightarrow> real list \<Rightarrow> nat \<Rightarrow> real list option" where
  "weights_loop d threshold weights k =
     (if \<bar>last weights\<bar> > threshold then
        weights_loop d threshold (weights @ [- last weights * (d - real k + 1) / real k]) (k + 1)
      else Some weights)"

declare weights_loop.simps [code]

definition compute_weights :: "real \<Rightarrow> real \<Rightarrow> real list option" where
  "compute_weights d threshold = weights_loop d threshold [1] 1"

text \<open>\<open>np.dot\<close> of the weight row with a window: a NaN in the window makes the product NaN.\<close>

definition np_dot :: "real list \<Rightarrow> series \<Rightarrow> real option" where
  "np_dot ws window =
     (if list_all (\<lambda>x. x \<noteq> None) window
      then Some (sum_list (map2 (*) ws (map the window)))
      else None)"

text \<open>The \<open>for\<close> loop over \<open>range(width, len(series))\<close>, writing into \<open>result\<close>.\<close>

definition apply_weights :: "real list \<Rightarrow> series \<Rightarrow> series" where
  "apply_weights weights series =
     (let width = length weights
      in fold (\<lambda>iloc result.
                 result[iloc := np_dot weights (take width (drop (iloc - width) series))])
           [width..<length series]
           (replicate (length series) None))"

definition fractional_diff :: "series \<Rightarrow> real \<Rightarrow> real \<Rightarrow> (nat \<times> real) list option" where
  "fractional_diff series d threshold =
     (case compute_weights d threshold of
        None \<Rightarrow> None
      | Some weights \<Rightarrow> Some (dropna (apply_weights (rev weights) series)))"





section \<open>Half-life of mean reversion (analyzers/cointegration.py)\<close>

text \<open>\<open>spread.shift(1)\<close> and \<open>spread.diff()\<close>, position by position.\<close>

definition shift1 :: "series \<Rightarrow> series" where
  "shift1 xs = (if xs = [] then [] else None # butlast xs)"

definition diff1 :: "series \<Rightarrow> series" where
  "diff1 xs =
     map2 (\<lambda>x prev. case (x, prev) of (Some a, Some b) \<Rightarrow> Some (a - b) | _ \<Rightarrow> None)
       xs (shift1 xs)"

text \<open>
  The data frame of the two columns after its \<open>dropna()\<close>: the rows whose position has
  a value in both, as pairs (diff, lag).
\<close>

definition aligned_rows :: "(nat \<times> real) list \<Rightarrow> (nat \<times> real) list \<Rightarrow> (real \<times> real) list" where
  "aligned_rows spread_diff spread_lag =
     concat (map (\<lambda>(i, dv). case map_of spread_lag i of None \<Rightarrow> [] | Some lv \<Rightarrow> [(dv, lv)])
               spread_diff)"

text \<open>
  The regression of scikit-learn is a parameter: from the column \<open>lag\<close> and the
  column \<open>diff\<close> to the fitted coefficient \<open>coef_[0]\<close>, or to the exception raised.
\<close>

type_synonym regression = "real list \<Rightarrow> real list \<Rightarrow> error + real"

definition calculate_half_life :: "regression \<Rightarrow> series \<Rightarrow> error + xfloat" where
  "calculate_half_life fit spread =
     (let spread_lag = dropna (shift1 spread);
          spread_diff = dropna (diff1 spread);
          df = aligned_rows spread_diff spread_lag
      in case fit (map snd df) (map fst df) of
           Inl e \<Rightarrow> Inl e
         | Inr theta \<Rightarrow>
             (if theta < 0 then Inr (Fin (- ln 2 / theta)) else Inr PosInf))"

text \<open>
  Ordinary least squares with an intercept, in closed form: the slope that the
  regression fits, 0 when the regressor is constant and an exception on no row at all.
\<close>

definition mean :: "real list \<Rightarrow> real" where
  "mean xs = sum_list xs / real (length xs)"

definition ols_slope :: regression where
  "ols_slope xs ys =
     (if xs = [] \<or> length xs \<noteq> length ys then Inl ValueError
      else
        (let sxx = sum_list (map (\<lambda>x. (x - mean xs) * (x - mean xs)) xs);
             sxy = sum_list (map2 (\<lambda>x y. (x - mean xs) * (y - mean ys)) xs ys)
         in if sxx = 0 then Inr 0 else Inr (sxy / sxx)))"

section \<open>Rolling statistics: z-score and Hurst exponent\<close>

text \<open>
  \<open>series.rolling(window=w)\<close>: the window that ends at position \<open>i\<close>, present only
  when it is full and holds no missing value (pandas' default \<open>min_periods\<close>).
\<close>

definition window_at :: "series \<Rightarrow> nat \<Rightarrow> nat \<Rightarrow> real list option" where
  "window_at xs w i =
     (if 0 < w \<and> w \<le> i + 1 then
        (let win = take w (drop (i + 1 - w) xs)
         in if list_all (\<lambda>x. x \<noteq> None) win then Some (map the win) else None)
      else None)"

definition rolling_mean :: "series \<Rightarrow> nat \<Rightarrow> series" where
  "rolling_mean xs w = map (\<lambda>i. map_option mean (window_at xs w i)) [0..<length xs]"

text \<open>The sample standard deviation (one degree of freedom removed), NaN on one value.\<close>

definition sample_std :: "real list \<Rightarrow> real option" where
  "sample_std win =
     (if length win < 2 then None
      else Some (sqrt (sum_list (map (\<lambda>x. (x - mean win) * (x - mean win)) win)
                       / real (length win - 1))))"

definition rolling_std :: "series \<Rightarrow> nat \<Rightarrow> series" where
  "rolling_std xs w =
     map (\<lambda>i. case window_at xs w i of None \<Rightarrow> None | Some win \<Rightarrow> sample_std win)
       [0..<length xs]"

text \<open>
  \<open>calculate_z_score\<close> (analyzers/cointegration.py): \<open>(spread - mean) / std\<close>,
  position by position, a float division whose divisor can be 0.
\<close>

definition calculate_z_score :: "series \<Rightarrow> nat \<Rightarrow> xfloat list" where
  "calculate_z_score spread window =
     (let mean_series = rolling_mean spread window;
          std_series = rolling_std spread window
      in map (\<lambda>i. case (spread ! i, mean_series ! i, std_series ! i) of
                     (Some x, Some m, Some s) \<Rightarrow> fdiv (x - m) s
                   | _ \<Rightarrow> NaN)
           [0..<length spread])"

text \<open>
  \<open>calculate_hurst_exponent\<close> (analyzers/signal_processing.py), on a series without
  missing values. One pass of the loop over the lags: nothing is appended when the
  rolling standard deviation has no value, otherwise the rescaled range, which is 0
  when the mean standard deviation is not positive.
\<close>

fun cumsum_from :: "real \<Rightarrow> real list \<Rightarrow> real list" where
  "cumsum_from acc [] = []"
| "cumsum_from acc (x # xs) = (acc + x) # cumsum_from (acc + x) xs"

definition lag_statistic :: "real list \<Rightarrow> nat \<Rightarrow> real option list" where
  "lag_statistic series lag =
     (let std = map snd (dropna (rolling_std (map Some series) lag))
      in if std = [] then []
         else
           (let rolling_mean_values = map snd (dropna (rolling_mean (map Some series) lag));
                deviations = map2 (-) (take (length rolling_mean_values) (drop (lag - 1) series))
                               rolling_mean_values;
                cumulative_dev = cumsum_from 0 deviations;
                R = (case cumulative_dev of
                       [] \<Rightarrow> None
                     | x # xs \<Rightarrow> Some (fold max xs x - fold min xs x));
                RS = (if mean std > 0 then map_option (\<lambda>r. r / mean std) R else Some 0)
            in [RS]))"

text \<open>\<open>np.log\<close>: minus infinity at 0, NaN below 0 and on NaN.\<close>

definition np_log :: "real option \<Rightarrow> xfloat" where
  "np_log x =
     (case x of
        None \<Rightarrow> NaN
      | Some v \<Rightarrow> if 0 < v then Fin (ln v) else if v = 0 then NegInf else NaN)"

text \<open>
  \<open>np.polyfit(log_lags, log_tau, 1)[0]\<close> is a parameter: from the two columns to the
  fitted slope, or to the exception raised.
\<close>

type_synonym polyfit = "real list \<Rightarrow> xfloat list \<Rightarrow> error + xfloat"

definition calculate_hurst_exponent :: "polyfit \<Rightarrow> real list \<Rightarrow> int \<Rightarrow> error + xfloat" where
  "calculate_hurst_exponent polyfit series max_lag =
     (let lags = [2..<nat max_lag];
          tau = concat (map (lag_statistic series) lags)
      in if tau = [] then Inr (Fin (1 / 2))
         else polyfit (map (\<lambda>lag. ln (real lag)) (take (length tau) lags)) (map np_log tau))"

text \<open>
  A stand-in for the fit: NaN as soon as a value to fit is not finite, the least-squares
  slope otherwise.
\<close>

fun finite_value :: "xfloat \<Rightarrow> real option" where
  "finite_value (Fin r) = Some r"
| "finite_value PosInf = None"
| "finite_value NegInf = None"
| "finite_value NaN = None"

definition polyfit_slope :: polyfit where
  "polyfit_slope xs ys =
     (if list_all (\<lambda>y. finite_value y \<noteq> None) ys then
        (case ols_slope xs (map (\<lambda>y. the (finite_value y)) ys) of
           Inl e \<Rightarrow> Inl e
         | Inr slope \<Rightarrow> Inr (Fin slope))
      else Inr NaN)"

section \<open>Notions used to state and prove the properties\<close>


text \<open>The indices that Python accepts for a list of the given length.\<close>

definition valid_index :: "'a list \<Rightarrow> int \<Rightarrow> bool" where
  "valid_index xs i = (- int (length xs) \<le> i \<and> i < int (length xs))"




text \<open>
  The rows of the Ornstein-Uhlenbeck regression as the specification words them: for
  every position \<open>t \<ge> 1\<close> where the spread and its predecessor are both present, the
  pair of \<open>\<Delta>spread[t] = spread[t] - spread[t-1]\<close> and \<open>lag[t] = spread[t-1]\<close>.
\<close>

definition ou_rows :: "series \<Rightarrow> (real \<times> real) list" where
  "ou_rows spread =
     concat (map (\<lambda>t. case (spread ! t, spread ! (t - 1)) of
                         (Some a, Some b) \<Rightarrow> [(a - b, b)]
                       | _ \<Rightarrow> [])
               [1..<length spread])"

subsection \<open>Concrete inputs\<close>



text \<open>A calm instrument: volatility 10 percent, Sharpe ratio 1, nothing else.\<close>

definition calm_analysis :: analysis where
  "calm_analysis =
     \<lparr>signal_processing = None,
      regime = None,
      volatility = Some \<lparr>annualized_volatility = Some (1 / 10), model_type = None\<rparr>,
      price_change_pct = None,
      metrics = Some \<lparr>sharpe_ratio = Some 1\<rparr>,
      cointegration = None\<rparr>"

text \<open>A regime dictionary whose current regime is 3, with no list of probabilities.\<close>

definition out_of_range_regime :: regime_dict where
  "out_of_range_regime =
     \<lparr>current_regime = Some 3, regime_descriptions = None,
      regime_probabilities = None, n_states = None\<rparr>"

definition out_of_range_analysis :: analysis where
  "out_of_range_analysis = empty_analysis\<lparr>regime := Some out_of_range_regime\<rparr>"



section \<open>Properties of the fusion engine\<close>

lemmas fusion_defs =
  calculate_trading_signal_def gather_signals_def hurst_signal_def get_hurst_def
  regime_signal_def regime_lookup_def volatility_signal_def momentum_signal_def
  statistical_signal_def get_price_change_def get_sharpe_def decide_def np_average_def
  normalize_weights_def reasoning_parts_def py_round_def round_half_even_def recent_return_def
  py_index_def fdiv_def regime_truthy_def volatility_truthy_def cointegration_truthy_def

subsection \<open>What every run gathers\<close>











subsection \<open>The weighted average\<close>





subsection \<open>Rounding\<close>

lemma round_half_even_lower: "of_int m \<le> y \<Longrightarrow> m \<le> round_half_even y"
proof -
  assume "of_int m \<le> y"
  then have "m \<le> \<lfloor>y\<rfloor>" by (simp add: le_floor_iff)
  then show ?thesis by (simp add: round_half_even_def Let_def)
qed

lemma round_half_even_upper: "y \<le> of_int m \<Longrightarrow> round_half_even y \<le> m"
proof -
  assume y: "y \<le> of_int m"
  then have le: "\<lfloor>y\<rfloor> \<le> m" by (metis floor_mono floor_of_int)
  show ?thesis
  proof (cases "y - of_int \<lfloor>y\<rfloor> < 1 / 2")
    case True
    with le show ?thesis by (simp add: round_half_even_def Let_def)
  next
    case False
    then have "of_int \<lfloor>y\<rfloor> < y" by linarith
    with y have "of_int \<lfloor>y\<rfloor> < (of_int m :: real)" by linarith
    then have "\<lfloor>y\<rfloor> < m" by simp
    then show ?thesis by (simp add: round_half_even_def Let_def)
  qed
qed

lemma py_round_bounds:
  assumes "of_int lo / 10 ^ n \<le> x" "x \<le> of_int hi / 10 ^ n"
  shows "of_int lo / 10 ^ n \<le> py_round x n" "py_round x n \<le> of_int hi / 10 ^ n"
proof -
  from assms(1) have "of_int lo \<le> x * 10 ^ n" by (simp add: divide_le_eq)
  then have "lo \<le> round_half_even (x * 10 ^ n)" by (rule round_half_even_lower)
  then show "of_int lo / 10 ^ n \<le> py_round x n"
    by (simp add: py_round_def divide_le_cancel)
  from assms(2) have "x * 10 ^ n \<le> of_int hi" by (simp add: le_divide_eq)
  then have "round_half_even (x * 10 ^ n) \<le> hi" by (rule round_half_even_upper)
  then show "py_round x n \<le> of_int hi / 10 ^ n"
    by (simp add: py_round_def divide_le_cancel)
qed

subsection \<open>No factor supplied\<close>

text \<open>
  C1. An absent factor should add neither a signal nor a weight, and with no factor at
  all the result should be HOLD with confidence 0 and signal strength 0, flagged as
  insufficient data. On the empty analysis dictionary, and whatever the prices, the
  engine instead reads the absent Sharpe ratio and price change as 0, appends the
  momentum signal -0.5 with weight 0.20, and returns SELL with confidence 50 and
  signal strength -0.5, the reasoning naming a weak Sharpe ratio of 0.
\<close>

theorem calculate_trading_signal_no_factors:
  "calculate_trading_signal empty_analysis price_series =
     Inr \<lparr>recommendation = SELL, confidence = 50, signal_strength = - (1 / 2),
          reasoning = Joined [WeakSharpe 0]\<rparr>"
  by (simp add: fusion_defs empty_analysis_def)

subsection \<open>The decision rule\<close>





subsection \<open>Confidence of a HOLD\<close>

lemma decide_hold_confidence:
  assumes "decide a g = Inr r" "fst g \<noteq> []" "recommendation r = HOLD"
  shows "70 \<le> confidence r \<and> confidence r \<le> 100"
proof -
  from assms(1,2) obtain S where S: "np_average (fst g) (normalize_weights (snd g)) = Inr S"
    by (auto simp: decide_def split: sum.splits)
  with assms have range: "\<not> S > 3 / 10" "\<not> S < - (3 / 10)"
    and conf: "confidence r = py_round (100 - \<bar>S\<bar> * 100) 1"
    by (auto simp: decide_def Let_def split: if_splits)
  from range have "of_int 700 / 10 ^ 1 \<le> 100 - \<bar>S\<bar> * 100"
    and "100 - \<bar>S\<bar> * 100 \<le> of_int 1000 / 10 ^ 1"
    by simp_all
  from py_round_bounds[OF this] show ?thesis unfolding conf by simp
qed

text \<open>
  C9. Whenever \<open>calculate_trading_signal\<close> returns HOLD from at least one gathered
  signal, the confidence it reports lies between 70 and 100.
\<close>

theorem hold_confidence_range:
  assumes "gather_signals a price_series = Inr (signals, weights)" "signals \<noteq> []"
    and "calculate_trading_signal a price_series = Inr r" "recommendation r = HOLD"
  shows "70 \<le> confidence r \<and> confidence r \<le> 100"
  using assms decide_hold_confidence[of a "(signals, weights)" r]
  by (simp add: calculate_trading_signal_def)

text \<open>A HOLD from the two signals of the calm instrument has confidence 78.6.\<close>

theorem hold_confidence_range_witness:
  "gather_signals calm_analysis [] = Inr ([1 / 2, 0], [3 / 20, 1 / 5])
   \<and> [1 / 2, 0 :: real] \<noteq> []
   \<and> calculate_trading_signal calm_analysis [] =
       Inr \<lparr>recommendation = HOLD, confidence = 393 / 5, signal_strength = 107 / 500,
            reasoning = Joined [LowVolatility 10]\<rparr>
   \<and> (70 :: real) \<le> 393 / 5 \<and> (393 / 5 :: real) \<le> 100"
  using hold_confidence_range[of calm_analysis "[]" "[1 / 2, 0]" "[3 / 20, 1 / 5]"
      "\<lparr>recommendation = HOLD, confidence = 393 / 5, signal_strength = 107 / 500,
        reasoning = Joined [LowVolatility 10]\<rparr>"]
  by (simp add: fusion_defs calm_analysis_def)

subsection \<open>The regime lookup\<close>

lemma py_index_valid: "(\<exists>x. py_index xs i = Inr x) \<longleftrightarrow> valid_index xs i"
  by (auto simp: py_index_def valid_index_def Let_def)

lemma regime_lookup_returns:
  "(\<exists>x. regime_lookup r = Inr x)
   \<longleftrightarrow> (\<exists>c. current_regime r = Some c
            \<and> valid_index (case regime_probabilities r of None \<Rightarrow> [0, 0, 0] | Some ps \<Rightarrow> ps) c)"
proof (cases "current_regime r")
  case None
  then show ?thesis by (simp add: regime_lookup_def)
next
  case (Some c)
  let ?probs = "case regime_probabilities r of None \<Rightarrow> [0, 0, 0] | Some ps \<Rightarrow> ps"
  have "(\<exists>x. regime_lookup r = Inr x) \<longleftrightarrow> (\<exists>x. py_index ?probs c = Inr x)"
    using Some by (cases "py_index ?probs c") (simp_all add: regime_lookup_def)
  then show ?thesis using Some by (simp add: py_index_valid)
qed

lemma regime_signal_returns:
  assumes "regime a = Some r" "regime_truthy r"
  shows "(\<exists>g'. regime_signal a g = Inr g') \<longleftrightarrow> (\<exists>x. regime_lookup r = Inr x)"
  using assms by (auto simp: regime_signal_def split: sum.splits prod.splits)

text \<open>
  C10. When the regime factor is present, with \<open>probs\<close> the list under
  \<open>regime_probabilities\<close> (\<open>[0, 0, 0]\<close> when the key is absent), the regime step
  returns exactly when \<open>current_regime\<close> is a valid index into \<open>probs\<close>; when it is
  not, the whole call ends in an error: the error branch is reached, for instance with
  \<open>current_regime = 3\<close> against the default list of three.
\<close>

theorem regime_index_precondition:
  assumes "regime a = Some r" "regime_truthy r"
    and "probs = (case regime_probabilities r of None \<Rightarrow> [0, 0, 0] | Some ps \<Rightarrow> ps)"
  shows "((\<exists>g'. regime_signal a g = Inr g')
            \<longleftrightarrow> (\<exists>c. current_regime r = Some c \<and> valid_index probs c))
         \<and> ((\<forall>c. current_regime r = Some c \<longrightarrow> \<not> valid_index probs c)
              \<longrightarrow> (\<exists>e. calculate_trading_signal a price_series = Inl e))"
proof -
  have iff: "(\<exists>g'. regime_signal a g = Inr g')
            \<longleftrightarrow> (\<exists>c. current_regime r = Some c \<and> valid_index probs c)" for g
    unfolding assms(3) regime_signal_returns[OF assms(1,2)] regime_lookup_returns ..
  have "\<exists>e. calculate_trading_signal a price_series = Inl e"
    if bad: "\<forall>c. current_regime r = Some c \<longrightarrow> \<not> valid_index probs c"
  proof (cases "hurst_signal a price_series ([], [])")
    case (Inl e)
    then show ?thesis by (simp add: calculate_trading_signal_def gather_signals_def)
  next
    case (Inr g1)
    from bad iff[of g1] obtain e where "regime_signal a g1 = Inl e"
      by (cases "regime_signal a g1") auto
    with Inr show ?thesis by (simp add: calculate_trading_signal_def gather_signals_def)
  qed
  with iff show ?thesis by blast
qed

text \<open>The lookup \<open>[0, 0, 0][3]\<close> is out of bounds and the call ends in an IndexError.\<close>

theorem regime_index_precondition_witness:
  "regime out_of_range_analysis = Some out_of_range_regime
   \<and> regime_truthy out_of_range_regime
   \<and> current_regime out_of_range_regime = Some 3
   \<and> \<not> valid_index [0, 0, 0 :: real] 3
   \<and> calculate_trading_signal out_of_range_analysis [] = Inl IndexError
   \<and> (\<exists>e. calculate_trading_signal out_of_range_analysis [] = Inl e)"
  using regime_index_precondition[of out_of_range_analysis out_of_range_regime "[0, 0, 0]"
      "([], [])" "[]"]
  by (simp add: fusion_defs out_of_range_analysis_def out_of_range_regime_def empty_analysis_def
      valid_index_def)

section \<open>Properties of fractional differentiation\<close>

subsection \<open>The weight loop\<close>










subsection \<open>The window of each output value\<close>

lemma fold_update_nth:
  assumes "j < length r0"
  shows "fold (\<lambda>i r. r[i := f i]) [a..<b] r0 ! j = (if a \<le> j \<and> j < b then f j else r0 ! j)"
    and "length (fold (\<lambda>i r. r[i := f i]) [a..<b] r0) = length r0"
proof -
  have "fold (\<lambda>i r. r[i := f i]) [a..<b] r0 ! j = (if a \<le> j \<and> j < b then f j else r0 ! j)
        \<and> length (fold (\<lambda>i r. r[i := f i]) [a..<b] r0) = length r0"
  proof (induction b)
    case 0
    show ?case by simp
  next
    case (Suc b)
    show ?case
    proof (cases "a \<le> b")
      case True
      with Suc assms show ?thesis by (cases "j = b") (simp_all add: nth_list_update)
    next
      case False
      then show ?thesis by auto
    qed
  qed
  then show "fold (\<lambda>i r. r[i := f i]) [a..<b] r0 ! j = (if a \<le> j \<and> j < b then f j else r0 ! j)"
    and "length (fold (\<lambda>i r. r[i := f i]) [a..<b] r0) = length r0"
    by simp_all
qed

text \<open>
  Before \<open>dropna()\<close>, position \<open>i\<close> of the result holds a value only from the position
  \<open>width\<close> on, and that value is the product of the weights with the \<open>width\<close> values
  at the positions \<open>i - width, \<dots>, i - 1\<close>: the value at \<open>i\<close> itself is not read.
\<close>

lemma apply_weights_nth:
  assumes "i < length series"
  shows "apply_weights ws series ! i
         = (if length ws \<le> i
            then np_dot ws (take (length ws) (drop (i - length ws) series))
            else None)"
  using assms fold_update_nth(1)[of i "replicate (length series) None"
      "\<lambda>iloc. np_dot ws (take (length ws) (drop (iloc - length ws) series))"
      "length ws" "length series"]
  by (simp add: apply_weights_def Let_def)

lemma length_apply_weights: "length (apply_weights ws series) = length series"
proof (cases "series = []")
  case True
  then show ?thesis by (simp add: apply_weights_def)
next
  case False
  then have "0 < length (replicate (length series) (None :: real option))" by simp
  from fold_update_nth(2)[OF this] show ?thesis by (simp add: apply_weights_def Let_def)
qed

text \<open>
  C2. Differentiation of order \<open>d = 0\<close> should be the identity: weights \<open>[1]\<close> and
  the output equal to the input. On the series 1, 2, 3 with the default threshold
  \<open>1e-5\<close> the code builds the weights \<open>[1, 0]\<close> and returns the single value 2 at
  position 2; with the threshold 1 it builds \<open>[1]\<close> and returns 1 and 2 at the
  positions 1 and 2. Neither output is the input.
\<close>

theorem fractional_diff_order_zero:
  "compute_weights 0 (1 / 100000) = Some [1, 0]
   \<and> fractional_diff [Some 1, Some 2, Some 3] 0 (1 / 100000) = Some [(2, 2)]
   \<and> compute_weights 0 1 = Some [1]
   \<and> fractional_diff [Some 1, Some 2, Some 3] 0 1 = Some [(1, 1), (2, 2)]"
  by (simp add: fractional_diff_def compute_weights_def weights_loop.simps apply_weights_def
      np_dot_def dropna_def upt_rec)

text \<open>
  C3. The value at position \<open>i\<close> should be the product of the reversed weights with
  the \<open>width\<close> values ending at and including position \<open>i\<close>. On the series
  1, 2, 4, 8 with \<open>d = 1\<close> the weights are \<open>[1, -1, 0]\<close>, the width is 3, and the
  only output, at position 3, is 2: the product with the values 1, 2, 4 at the
  positions 0 to 2. The product with the values 2, 4, 8 that end at position 3 is 4.
\<close>

theorem fractional_diff_window:
  "compute_weights 1 (1 / 100000) = Some [1, - 1, 0]
   \<and> fractional_diff [Some 1, Some 2, Some 4, Some 8] 1 (1 / 100000) = Some [(3, 2)]
   \<and> np_dot [0, - 1, 1] [Some 1, Some 2, Some 4] = Some 2
   \<and> np_dot [0, - 1, 1] [Some 2, Some 4, Some 8] = Some 4"
  by (simp add: fractional_diff_def compute_weights_def weights_loop.simps apply_weights_def
      np_dot_def dropna_def upt_rec)

subsection \<open>The search for the minimal order\<close>









section \<open>Properties of the half-life estimator\<close>

lemma map_of_dropna_offset:
  "map_of (concat (map (\<lambda>(i, x). case x of None \<Rightarrow> [] | Some v \<Rightarrow> [(i, v)]) (enumerate k xs))) i
   = (if k \<le> i \<and> i < k + length xs then xs ! (i - k) else None)"
proof (induction xs arbitrary: k)
  case Nil
  show ?case by auto
next
  case (Cons x xs)
  show ?case
    using Cons.IH[of "Suc k"]
    by (cases x) (auto simp: map_add_def nth_Cons' Suc_diff_le split: if_splits)
qed

lemma map_of_dropna: "map_of (dropna xs) i = (if i < length xs then xs ! i else None)"
  using map_of_dropna_offset[of 0 xs i] by (simp add: dropna_def)

lemma aligned_rows_enumerate:
  "concat (map (\<lambda>(i, dv). case map_of lag i of None \<Rightarrow> [] | Some lv \<Rightarrow> [(dv, lv)])
             (concat (map (\<lambda>(i, x). case x of None \<Rightarrow> [] | Some v \<Rightarrow> [(i, v)])
                        (enumerate k ds))))
   = concat (map (\<lambda>(t, x). case x of
                         None \<Rightarrow> []
                       | Some dv \<Rightarrow> (case map_of lag t of None \<Rightarrow> [] | Some lv \<Rightarrow> [(dv, lv)]))
               (enumerate k ds))"
proof (induction ds arbitrary: k)
  case Nil
  show ?case by simp
next
  case (Cons d ds)
  then show ?case by (cases d) simp_all
qed

lemma aligned_rows_dropna:
  "aligned_rows (dropna ds) lag =
     concat (map (\<lambda>t. case ds ! t of
                         None \<Rightarrow> []
                       | Some dv \<Rightarrow> (case map_of lag t of None \<Rightarrow> [] | Some lv \<Rightarrow> [(dv, lv)]))
               [0..<length ds])"
proof -
  have e: "enumerate 0 ds = map (\<lambda>t. (t, ds ! t)) [0..<length ds]"
    by (rule nth_equalityI) (simp_all add: nth_enumerate_eq)
  have "aligned_rows (dropna ds) lag =
      concat (map (\<lambda>(t, x). case x of
                         None \<Rightarrow> []
                       | Some dv \<Rightarrow> (case map_of lag t of None \<Rightarrow> [] | Some lv \<Rightarrow> [(dv, lv)]))
               (enumerate 0 ds))"
    unfolding aligned_rows_def dropna_def by (rule aligned_rows_enumerate)
  also have "\<dots> = concat (map (\<lambda>t. case ds ! t of
                         None \<Rightarrow> []
                       | Some dv \<Rightarrow> (case map_of lag t of None \<Rightarrow> [] | Some lv \<Rightarrow> [(dv, lv)]))
               [0..<length ds])"
    unfolding e map_map by (simp only: comp_def prod.case)
  finally show ?thesis .
qed

lemma shift1_nth:
  "t < length xs \<Longrightarrow> shift1 xs ! t = (if t = 0 then None else xs ! (t - 1))"
  by (auto simp: shift1_def nth_Cons' nth_butlast)

lemma length_shift1: "length (shift1 xs) = length xs"
  by (simp add: shift1_def)

lemma diff1_nth:
  "t < length xs \<Longrightarrow>
   diff1 xs ! t = (case (xs ! t, shift1 xs ! t) of (Some a, Some b) \<Rightarrow> Some (a - b) | _ \<Rightarrow> None)"
  by (simp add: diff1_def length_shift1)

lemma length_diff1: "length (diff1 xs) = length xs"
  by (simp add: diff1_def length_shift1)

text \<open>The data frame that the code builds holds the rows that the specification words.\<close>

lemma aligned_rows_ou_rows:
  "aligned_rows (dropna (diff1 spread)) (dropna (shift1 spread)) = ou_rows spread"
proof (cases "spread = []")
  case True
  then show ?thesis
    by (simp add: ou_rows_def aligned_rows_def dropna_def diff1_def shift1_def)
next
  case False
  then have upt: "[0..<length spread] = 0 # [1..<length spread]"
    by (simp add: upt_rec)
  have zero: "diff1 spread ! 0 = None"
    using False by (simp add: diff1_nth shift1_nth split: option.splits)
  have eq: "(case diff1 spread ! t of
           None \<Rightarrow> []
         | Some dv \<Rightarrow> (case map_of (dropna (shift1 spread)) t of
                         None \<Rightarrow> [] | Some lv \<Rightarrow> [(dv, lv)]))
        = (case (spread ! t, spread ! (t - 1)) of (Some a, Some b) \<Rightarrow> [(a - b, b)] | _ \<Rightarrow> [])"
    if "t \<in> set [1..<length spread]" for t
    using that
    by (auto simp: diff1_nth shift1_nth map_of_dropna length_shift1 split: option.splits)
  have m: "map (\<lambda>t. case diff1 spread ! t of
           None \<Rightarrow> []
         | Some dv \<Rightarrow> (case map_of (dropna (shift1 spread)) t of
                         None \<Rightarrow> [] | Some lv \<Rightarrow> [(dv, lv)])) [1..<length spread]
        = map (\<lambda>t. case (spread ! t, spread ! (t - 1)) of
                       (Some a, Some b) \<Rightarrow> [(a - b, b)] | _ \<Rightarrow> []) [1..<length spread]"
    by (rule map_cong[OF refl]) (rule eq)
  show ?thesis
    unfolding aligned_rows_dropna length_diff1 upt ou_rows_def
    by (simp only: list.map concat.simps zero option.case append_Nil m)
qed

text \<open>
  C6. For every spread series on which the regression of the first difference on the
  lagged level returns a coefficient \<open>\<theta>\<close>, \<open>calculate_half_life\<close> returns
  \<open>-ln 2 / \<theta>\<close> when \<open>\<theta> < 0\<close> and \<open>+\<infinity>\<close> otherwise, without raising; it
  returns \<open>+\<infinity>\<close> exactly when \<open>\<theta> \<ge> 0\<close>.
\<close>

theorem half_life_decay:
  assumes "fit (map snd (ou_rows spread)) (map fst (ou_rows spread)) = Inr theta"
  shows "calculate_half_life fit spread
           = Inr (if theta < 0 then Fin (- ln 2 / theta) else PosInf)
         \<and> (calculate_half_life fit spread = Inr PosInf \<longleftrightarrow> 0 \<le> theta)"
  using assms by (auto simp: calculate_half_life_def aligned_rows_ou_rows)

text \<open>
  Under least squares the spread 4, 2, 3, 1 has \<open>\<theta> = -3/2\<close> and the half-life
  \<open>ln 2 / (3/2)\<close>; the spread 1, 2, 4, 8 has \<open>\<theta> = 1\<close> and the half-life \<open>+\<infinity>\<close>.
\<close>

theorem half_life_decay_witness:
  "ols_slope [4, 2, 3] [- 2, 1, - 2] = Inr (- (3 / 2))
   \<and> calculate_half_life ols_slope [Some 4, Some 2, Some 3, Some 1]
       = Inr (Fin (- ln 2 / (- (3 / 2))))
   \<and> ols_slope [1, 2, 4] [1, 2, 4] = Inr 1
   \<and> calculate_half_life ols_slope [Some 1, Some 2, Some 4, Some 8] = Inr PosInf"
  using half_life_decay[of ols_slope "[Some 4, Some 2, Some 3, Some 1]" "- (3 / 2)"]
    half_life_decay[of ols_slope "[Some 1, Some 2, Some 4, Some 8]" 1]
  by (simp add: ou_rows_def ols_slope_def mean_def upt_rec)

end
